theory Spec2Isabelle
  imports Complex_Main "HOL-Library.Word"
begin

section \<open>Data model of the collector (pkg/collector/collector.go)\<close>

text \<open>
  Go's \<open>int64\<close> is a 64-bit word read as a signed number (\<open>sint\<close>); \<open>++\<close> wraps.
  Go's \<open>float64\<close> is modelled by \<open>real\<close>: sums, products and comparisons are exact, and
  rounding is outside the model. A division whose divisor the code does not guard is
  modelled by \<open>f64_div\<close> below, which keeps the IEEE outcome of dividing by zero visible.
  Go's \<open>error\<close> is \<open>string option\<close>, \<open>None\<close> being \<open>nil\<close>. A \<open>time.Time\<close> is a number of
  nanoseconds on the monotonic clock, a \<open>time.Duration\<close> a number of nanoseconds.
\<close>

type_synonym int64 = "64 word"

datatype panic =
  SliceBoundsOutOfRange | IndexOutOfRange | MakeSliceLenOutOfRange | NilPointerDereference

record BenchmarkResult =
  Method :: string
  LatencyMs :: real
  Error :: "string option"
  Timestamp :: int

record Metrics =
  Method :: string
  Count :: int64
  ErrorCount :: int64
  TotalLatency :: real
  MinLatency :: real
  MaxLatency :: real
  Latencies :: "real list"
  maxLatencies :: int

text \<open>\<open>NewMetrics\<close>: \<open>float64(^uint(0) >> 1)\<close> is the largest signed 64-bit integer
  (which the conversion to \<open>float64\<close> rounds to \<open>2^63\<close>; no property below depends
  on it).\<close>

definition NewMetrics :: "string \<Rightarrow> Metrics" where
  "NewMetrics method =
     \<lparr>Metrics.Method = method, Count = 0, ErrorCount = 0, TotalLatency = 0,
      MinLatency = 2 ^ 63 - 1, MaxLatency = 0, Latencies = [], maxLatencies = 10000\<rparr>"

definition SetMaxLatencies :: "Metrics \<Rightarrow> int \<Rightarrow> Metrics" where
  "SetMaxLatencies m mx = m\<lparr>maxLatencies := mx\<rparr>"

text \<open>
  \<open>Metrics.AddResult\<close>. The slice expression \<open>m.Latencies[len(m.Latencies)-m.maxLatencies:]\<close>
  is reached only when \<open>len > maxLatencies\<close>; its lower bound exceeds the length exactly when
  \<open>maxLatencies\<close> is negative, and Go panics there.
\<close>

definition AddResult :: "Metrics \<Rightarrow> BenchmarkResult \<Rightarrow> panic + Metrics" where
  "AddResult m result =
     (let m1 = m\<lparr>Count := Count m + 1\<rparr> in
      if Error result \<noteq> None then Inr (m1\<lparr>ErrorCount := ErrorCount m1 + 1\<rparr>)
      else
        let m2 = m1\<lparr>TotalLatency := TotalLatency m1 + LatencyMs result\<rparr>;
            m3 = m2\<lparr>Latencies := Latencies m2 @ [LatencyMs result]\<rparr>;
            n = length (Latencies m3)
        in if int n > maxLatencies m3 \<and> maxLatencies m3 < 0 then Inl SliceBoundsOutOfRange
           else
             let m4 = (if int n > maxLatencies m3
                       then m3\<lparr>Latencies := drop (n - nat (maxLatencies m3)) (Latencies m3)\<rparr>
                       else m3);
                 m5 = (if LatencyMs result < MinLatency m4
                       then m4\<lparr>MinLatency := LatencyMs result\<rparr> else m4);
                 m6 = (if LatencyMs result > MaxLatency m5
                       then m5\<lparr>MaxLatency := LatencyMs result\<rparr> else m5)
             in Inr m6)"

text \<open>Ingesting a sequence of results into one per-kind metrics instance, one
  \<open>AddResult\<close> call after the other; a panic ends the sequence.\<close>

fun AddResults :: "Metrics \<Rightarrow> BenchmarkResult list \<Rightarrow> panic + Metrics" where
  "AddResults m [] = Inr m"
| "AddResults m (r # rs) =
     (case AddResult m r of Inl p \<Rightarrow> Inl p | Inr m' \<Rightarrow> AddResults m' rs)"

definition succeeded :: "BenchmarkResult \<Rightarrow> bool" where
  "succeeded r = (Error r = None)"

definition failed :: "BenchmarkResult \<Rightarrow> bool" where
  "failed r = (Error r \<noteq> None)"

text \<open>The latencies of the successful results of a sequence, in ingestion order.\<close>

definition success_latencies :: "BenchmarkResult list \<Rightarrow> real list" where
  "success_latencies rs = map LatencyMs (filter succeeded rs)"

section \<open>Statistics (pkg/collector/collector.go)\<close>

text \<open>
  The result of a \<open>float64\<close> division. Go does not panic on a zero divisor: IEEE 754 gives
  an infinity, or NaN for \<open>0/0\<close>. The divisor here is always a converted count, so it is
  never a negative zero.
\<close>

datatype f64 = Finite real | PosInf | NegInf | NaN

definition f64_div :: "real \<Rightarrow> real \<Rightarrow> f64" where
  "f64_div x y =
     (if y = 0 then (if x = 0 then NaN else if 0 < x then PosInf else NegInf)
      else Finite (x / y))"

definition float64_of_int64 :: "int64 \<Rightarrow> real" where
  "float64_of_int64 n = real_of_int (sint n)"

text \<open>Go's conversion \<open>int(x)\<close> of a \<open>float64\<close> truncates toward zero.\<close>

definition int_of_float64 :: "real \<Rightarrow> int" where
  "int_of_float64 x = (if x < 0 then \<lceil>x\<rceil> else \<lfloor>x\<rfloor>)"

record Stats =
  Method :: string
  Count :: int64
  ErrorCount :: int64
  ErrorRate :: real
  AvgLatency :: f64
  MinLatency :: real
  MaxLatency :: real
  P50Latency :: real
  P95Latency :: real
  P99Latency :: real
  TotalLatency :: real

text \<open>The zero value \<open>Stats{}\<close>.\<close>

definition Stats_zero :: Stats where
  "Stats_zero =
     \<lparr>Stats.Method = [], Count = 0, ErrorCount = 0, ErrorRate = 0, AvgLatency = Finite 0,
      MinLatency = 0, MaxLatency = 0, P50Latency = 0, P95Latency = 0, P99Latency = 0,
      TotalLatency = 0\<rparr>"

text \<open>Indexing a slice: Go panics outside \<open>0 \<le> i < len\<close>.\<close>

definition index_slice :: "real list \<Rightarrow> int \<Rightarrow> panic + real" where
  "index_slice values i =
     (if 0 \<le> i \<and> i < int (length values) then Inr (values ! nat i) else Inl IndexOutOfRange)"

text \<open>\<open>percentile\<close>: the caller passes the values sorted.\<close>

definition percentile :: "real list \<Rightarrow> int \<Rightarrow> panic + real" where
  "percentile values n =
     (if length values = 0 then Inr 0
      else
        let index = real_of_int n / 100 * real_of_int (int (length values) - 1) in
        if index = real_of_int (int_of_float64 index) then index_slice values (int_of_float64 index)
        else
          let lowerIndex = int_of_float64 index;
              upperIndex = lowerIndex + 1
          in if upperIndex \<ge> int (length values) then index_slice values lowerIndex
             else
               let fraction = index - real_of_int lowerIndex in
               (case index_slice values lowerIndex of
                  Inl p \<Rightarrow> Inl p
                | Inr lo \<Rightarrow>
                    (case index_slice values upperIndex of
                       Inl p \<Rightarrow> Inl p
                     | Inr hi \<Rightarrow> Inr (lo + fraction * (hi - lo)))))"

text \<open>
  The value at a linear-interpolated rank \<open>r\<close> of a sample, in the words of the
  specification: between the two neighbouring order statistics, weighted by the fractional
  part of the rank. This definition is the specification's side of the comparison with
  \<open>percentile\<close>.
\<close>

definition interpolated_rank :: "real list \<Rightarrow> real \<Rightarrow> real" where
  "interpolated_rank xs r =
     (let lo = nat \<lfloor>r\<rfloor>; frac = r - real_of_int \<lfloor>r\<rfloor>
      in if frac = 0 then xs ! lo
         else (1 - frac) * xs ! lo + frac * xs ! (lo + 1))"

text \<open>Go's builtin \<open>copy(dst, src)\<close> overwrites the first \<open>min (len dst) (len src)\<close> elements.\<close>

definition copy_slice :: "real list \<Rightarrow> real list \<Rightarrow> real list" where
  "copy_slice dst src = take (length dst) src @ drop (length src) dst"

text \<open>
  \<open>Metrics.GetStats\<close>, in state-passing form: the second component is the receiver after
  the call. The sort works on \<open>sortedLatencies\<close>, a fresh slice that \<open>copy\<close> filled.
  The divisors of \<open>errorRate\<close> and \<open>avgLatency\<close> are guarded by the two early returns.
\<close>

definition GetStats :: "Metrics \<Rightarrow> (panic + Stats) \<times> Metrics" where
  "GetStats m =
     (if Metrics.Count m = 0 then (Inr Stats_zero, m)
      else
        let successCount = Metrics.Count m - Metrics.ErrorCount m in
        if successCount = 0
        then (Inr (Stats_zero\<lparr>Stats.Method := Metrics.Method m, Stats.Count := Metrics.Count m,
                     Stats.ErrorCount := Metrics.ErrorCount m, ErrorRate := 100\<rparr>), m)
        else
          let avgLatency = f64_div (Metrics.TotalLatency m) (float64_of_int64 successCount);
              errorRate = float64_of_int64 (Metrics.ErrorCount m)
                            / float64_of_int64 (Metrics.Count m) * 100;
              sortedLatencies = replicate (length (Latencies m)) 0;
              sortedLatencies = copy_slice sortedLatencies (Latencies m);
              sortedLatencies = sort sortedLatencies
          in (case percentile sortedLatencies 50 of
                Inl p \<Rightarrow> (Inl p, m)
              | Inr p50 \<Rightarrow>
                  (case percentile sortedLatencies 95 of
                     Inl p \<Rightarrow> (Inl p, m)
                   | Inr p95 \<Rightarrow>
                       (case percentile sortedLatencies 99 of
                          Inl p \<Rightarrow> (Inl p, m)
                        | Inr p99 \<Rightarrow>
                            (Inr \<lparr>Stats.Method = Metrics.Method m, Count = Metrics.Count m,
                                  ErrorCount = Metrics.ErrorCount m, ErrorRate = errorRate,
                                  AvgLatency = avgLatency,
                                  MinLatency = Metrics.MinLatency m,
                                  MaxLatency = Metrics.MaxLatency m,
                                  P50Latency = p50, P95Latency = p95, P99Latency = p99,
                                  TotalLatency = 0\<rparr>, m)))))"

section \<open>The collector (pkg/collector/collector.go)\<close>

text \<open>
  One CSV data row, as the values handed to the formatting verbs; the header is the list of
  column names. \<open>csvWriter\<close> is \<open>None\<close> for the nil writer and otherwise holds the
  records written so far. The map \<open>metrics\<close> is an association list with distinct keys; its
  order stands for the iteration order of the Go map. \<open>results\<close> is the content of the
  buffered channel, oldest first. Log output is not part of the state.
\<close>

record csv_row =
  timestamp :: int
  method_name :: string
  total_ops :: int64
  success_ops :: int64
  error_ops :: int64
  error_rate_pct :: real
  avg_latency_ms :: f64
  p50_latency_ms :: real
  p95_latency_ms :: real
  p99_latency_ms :: real
  min_latency_ms :: real
  max_latency_ms :: real
  throughput_ops_per_sec :: real

datatype csv_record = Header "string list" | Row csv_row

record Collector =
  metrics :: "(string \<times> Metrics) list"
  results :: "BenchmarkResult list"
  done_closed :: bool
  csvWriter :: "csv_record list option"
  csvFile_closed :: bool

definition results_capacity :: nat where
  "results_capacity = 10000"

text \<open>\<open>NewCollector\<close>; \<open>create_err\<close> is the outcome of \<open>os.Create\<close>.\<close>

definition NewCollector :: "string \<Rightarrow> string option \<Rightarrow> string + Collector" where
  "NewCollector csvPath create_err =
     (if csvPath \<noteq> [] then
        (case create_err of
           Some err \<Rightarrow> Inl (''failed to create CSV file: '' @ err)
         | None \<Rightarrow>
             Inr \<lparr>metrics = [], results = [], done_closed = False,
                  csvWriter = Some [Header [''timestamp'', ''method'', ''total_ops'',
                    ''success_ops'', ''error_ops'', ''error_rate_pct'', ''avg_latency_ms'',
                    ''p50_latency_ms'', ''p95_latency_ms'', ''p99_latency_ms'',
                    ''min_latency_ms'', ''max_latency_ms'', ''throughput_ops_per_sec'']],
                  csvFile_closed = False\<rparr>)
      else Inr \<lparr>metrics = [], results = [], done_closed = False, csvWriter = None,
                csvFile_closed = False\<rparr>)"

text \<open>\<open>Collector.AddResult\<close>: a non-blocking send; a full channel drops the result.\<close>

definition Collector_AddResult :: "Collector \<Rightarrow> BenchmarkResult \<Rightarrow> Collector" where
  "Collector_AddResult c result =
     (if length (results c) < results_capacity then c\<lparr>results := results c @ [result]\<rparr>
      else c)"

definition store_metrics :: "string \<Rightarrow> Metrics \<Rightarrow> (string \<times> Metrics) list \<Rightarrow> (string \<times> Metrics) list" where
  "store_metrics key m kvs = map (\<lambda>(k, v). if k = key then (k, m) else (k, v)) kvs"

definition processResult :: "Collector \<Rightarrow> BenchmarkResult \<Rightarrow> panic + Collector" where
  "processResult c result =
     (let key = BenchmarkResult.Method result in
      case map_of (metrics c) key of
        None \<Rightarrow>
          (case AddResult (NewMetrics key) result of
             Inl p \<Rightarrow> Inl p
           | Inr m' \<Rightarrow> Inr (c\<lparr>metrics := metrics c @ [(key, m')]\<rparr>))
      | Some m \<Rightarrow>
          (case AddResult m result of
             Inl p \<Rightarrow> Inl p
           | Inr m' \<Rightarrow> Inr (c\<lparr>metrics := store_metrics key m' (metrics c)\<rparr>)))"

text \<open>One iteration of \<open>Collector.run\<close> that receives from the channel.\<close>

definition run_receive :: "Collector \<Rightarrow> panic + Collector" where
  "run_receive c =
     (case results c of
        [] \<Rightarrow> Inr c
      | result # queue \<Rightarrow> processResult (c\<lparr>results := queue\<rparr>) result)"

definition GetAggregatedStats :: "Collector \<Rightarrow> panic + Stats" where
  "GetAggregatedStats c =
     (let ms = map snd (metrics c);
          allLatencies = concat (map Latencies ms);
          totalCount = sum_list (map Metrics.Count ms);
          totalErrorCount = sum_list (map Metrics.ErrorCount ms);
          totalLatency = sum_list (map Metrics.TotalLatency ms)
      in if totalCount = 0 then Inr (Stats_zero\<lparr>Stats.Method := ''AGGREGATED''\<rparr>)
         else
           let successCount = totalCount - totalErrorCount;
               errorRate = float64_of_int64 totalErrorCount / float64_of_int64 totalCount * 100;
               avgLatency = f64_div totalLatency (float64_of_int64 successCount);
               agg = \<lparr>Stats.Method = ''AGGREGATED'', Count = totalCount,
                      ErrorCount = totalErrorCount, ErrorRate = errorRate,
                      AvgLatency = avgLatency, MinLatency = 0, MaxLatency = 0,
                      P50Latency = 0, P95Latency = 0, P99Latency = 0,
                      TotalLatency = totalLatency\<rparr>
           in if length allLatencies > 0 then
                let sorted = sort allLatencies in
                (case percentile sorted 50 of
                   Inl p \<Rightarrow> Inl p
                 | Inr p50 \<Rightarrow>
                     (case percentile sorted 95 of
                        Inl p \<Rightarrow> Inl p
                      | Inr p95 \<Rightarrow>
                          (case percentile sorted 99 of
                             Inl p \<Rightarrow> Inl p
                           | Inr p99 \<Rightarrow>
                               Inr (agg\<lparr>Stats.MinLatency := hd sorted,
                                        Stats.MaxLatency := last sorted,
                                        P50Latency := p50, P95Latency := p95,
                                        P99Latency := p99\<rparr>))))
              else Inr agg)"

text \<open>\<open>Duration.Seconds\<close> and \<open>Duration.Milliseconds\<close> of a duration in nanoseconds; the
  integer division of Go truncates toward zero.\<close>

definition Seconds :: "int \<Rightarrow> real" where
  "Seconds d = real_of_int d / 1000000000"

definition Milliseconds :: "int \<Rightarrow> int" where
  "Milliseconds d = (if d < 0 then - ((- d) div 1000000) else d div 1000000)"

text \<open>
  \<open>WriteAggregatedMetricsToCSV\<close>. The loop reads \<open>metrics.StartTime\<close>, a field that the
  declaration of \<open>Metrics\<close> does not have; it is the parameter \<open>StartTime\<close> here. \<open>now\<close>
  is the clock at the call.
\<close>

fun method_rows :: "(Metrics \<Rightarrow> int) \<Rightarrow> int \<Rightarrow> Metrics list \<Rightarrow> panic + csv_record list" where
  "method_rows StartTime now [] = Inr []"
| "method_rows StartTime now (m # ms) =
     (case fst (GetStats m) of
        Inl p \<Rightarrow> Inl p
      | Inr stats \<Rightarrow>
          if Stats.Count stats = 0 then method_rows StartTime now ms
          else
            let elapsedTime = Seconds (now - StartTime m);
                throughput =
                  (if elapsedTime > 0
                   then float64_of_int64 (Stats.Count stats - Stats.ErrorCount stats) / elapsedTime
                   else 0);
                row = \<lparr>timestamp = now, method_name = Stats.Method stats,
                       total_ops = Stats.Count stats,
                       success_ops = Stats.Count stats - Stats.ErrorCount stats,
                       error_ops = Stats.ErrorCount stats,
                       error_rate_pct = ErrorRate stats,
                       avg_latency_ms = AvgLatency stats,
                       p50_latency_ms = P50Latency stats,
                       p95_latency_ms = P95Latency stats,
                       p99_latency_ms = P99Latency stats,
                       min_latency_ms = Stats.MinLatency stats,
                       max_latency_ms = Stats.MaxLatency stats,
                       throughput_ops_per_sec = throughput\<rparr>
            in (case method_rows StartTime now ms of
                  Inl p \<Rightarrow> Inl p
                | Inr rows \<Rightarrow> Inr (Row row # rows)))"

definition WriteAggregatedMetricsToCSV ::
    "(Metrics \<Rightarrow> int) \<Rightarrow> int \<Rightarrow> Collector \<Rightarrow> panic + Collector" where
  "WriteAggregatedMetricsToCSV StartTime now c =
     (case csvWriter c of
        None \<Rightarrow> Inr c
      | Some written \<Rightarrow>
          (case method_rows StartTime now (map snd (metrics c)) of
             Inl p \<Rightarrow> Inl p
           | Inr rows \<Rightarrow>
               (case GetAggregatedStats c of
                  Inl p \<Rightarrow> Inl p
                | Inr aggregated \<Rightarrow>
                    if 0 < sint (Stats.Count aggregated) then
                      let throughput =
                            float64_of_int64 (Stats.Count aggregated - Stats.ErrorCount aggregated);
                          row = \<lparr>timestamp = now, method_name = ''AGGREGATED'',
                                 total_ops = Stats.Count aggregated,
                                 success_ops = Stats.Count aggregated - Stats.ErrorCount aggregated,
                                 error_ops = Stats.ErrorCount aggregated,
                                 error_rate_pct = ErrorRate aggregated,
                                 avg_latency_ms = AvgLatency aggregated,
                                 p50_latency_ms = P50Latency aggregated,
                                 p95_latency_ms = P95Latency aggregated,
                                 p99_latency_ms = P99Latency aggregated,
                                 min_latency_ms = Stats.MinLatency aggregated,
                                 max_latency_ms = Stats.MaxLatency aggregated,
                                 throughput_ops_per_sec = throughput\<rparr>
                      in Inr (c\<lparr>csvWriter := Some (written @ rows @ [Row row])\<rparr>)
                    else Inr (c\<lparr>csvWriter := Some (written @ rows)\<rparr>))))"

text \<open>\<open>Collector.Stop\<close>: closes \<open>done\<close>, writes the aggregated metrics once, closes the file.\<close>

definition Stop :: "(Metrics \<Rightarrow> int) \<Rightarrow> int \<Rightarrow> Collector \<Rightarrow> panic + Collector" where
  "Stop StartTime now c =
     (case WriteAggregatedMetricsToCSV StartTime now (c\<lparr>done_closed := True\<rparr>) of
        Inl p \<Rightarrow> Inl p
      | Inr c' \<Rightarrow> Inr (if csvWriter c' \<noteq> None then c'\<lparr>csvFile_closed := True\<rparr> else c'))"

text \<open>The method, the operation count and the throughput of each data row written, in
  the order of writing; the header is left out.\<close>

fun throughput_column :: "csv_record list \<Rightarrow> (string \<times> int \<times> real) list" where
  "throughput_column [] = []"
| "throughput_column (Header cols # recs) = throughput_column recs"
| "throughput_column (Row r # recs) =
     (method_name r, sint (total_ops r), throughput_ops_per_sec r) # throughput_column recs"

section \<open>The connection pool (pkg/kvclient/client.go)\<close>

text \<open>
  The network is explicit state: \<open>dials\<close> counts the calls of \<open>grpc.Dial\<close> so far, and
  \<open>open_conns\<close> lists the connections that are open; a connection is named by the number
  of the call that opened it. Whether a call succeeds is the environment's choice: \<open>dial n\<close>
  is the error of the call number \<open>n\<close>, \<open>None\<close> when it succeeds.
\<close>

record world =
  dials :: nat
  open_conns :: "nat list"

record Client =
  conn :: nat

datatype pool_error = CreateClientFailed nat string | PoolPanic panic

definition NewClient :: "(nat \<Rightarrow> string option) \<Rightarrow> string \<Rightarrow> world \<Rightarrow> (string + Client) \<times> world" where
  "NewClient dial targetAddress w =
     (case dial (dials w) of
        Some err \<Rightarrow>
          (Inl (''failed to connect to '' @ targetAddress @ '': '' @ err),
           w\<lparr>dials := dials w + 1\<rparr>)
      | None \<Rightarrow>
          (Inr \<lparr>conn = dials w\<rparr>,
           w\<lparr>dials := dials w + 1, open_conns := dials w # open_conns w\<rparr>))"

definition Client_Close :: "Client \<Rightarrow> world \<Rightarrow> world" where
  "Client_Close c w = w\<lparr>open_conns := removeAll (conn c) (open_conns w)\<rparr>"

text \<open>The loop \<open>for j := 0; j < i; j++ { clients[j].Close() }\<close>, from \<open>j\<close> on; a slot that
  is still nil would panic in \<open>Close\<close>.\<close>

function close_created :: "Client option list \<Rightarrow> nat \<Rightarrow> nat \<Rightarrow> world \<Rightarrow> panic + world" where
  "close_created clients j i w =
     (if j < i then
        (if j < length clients then
           (case clients ! j of
              None \<Rightarrow> Inl NilPointerDereference
            | Some c \<Rightarrow> close_created clients (j + 1) i (Client_Close c w))
         else Inl IndexOutOfRange)
      else Inr w)"
  by pat_completeness auto
termination
  by (relation "measure (\<lambda>(clients, j, i, w). i - j)") auto

declare close_created.simps [simp del]

text \<open>The loop \<open>for i := 0; i < numConnections; i++\<close> of \<open>NewConnectionPool\<close>, from \<open>i\<close> on.
  \<open>CreateClientFailed i err\<close> is the error
  \<open>fmt.Errorf("failed to create client %d: %w", i, err)\<close>.\<close>

function create_clients ::
    "(nat \<Rightarrow> string option) \<Rightarrow> string \<Rightarrow> nat \<Rightarrow> nat \<Rightarrow> Client option list \<Rightarrow> world
       \<Rightarrow> (pool_error + Client option list) \<times> world" where
  "create_clients dial targetAddress numConnections i clients w =
     (if i < numConnections then
        (case NewClient dial targetAddress w of
           (Inl err, w1) \<Rightarrow>
             (case close_created clients 0 i w1 of
                Inl p \<Rightarrow> (Inl (PoolPanic p), w1)
              | Inr w2 \<Rightarrow> (Inl (CreateClientFailed i err), w2))
         | (Inr client, w1) \<Rightarrow>
             (if i < length clients
              then create_clients dial targetAddress numConnections (i + 1)
                     (clients[i := Some client]) w1
              else (Inl (PoolPanic IndexOutOfRange), w1)))
      else (Inr clients, w))"
  by pat_completeness auto
termination
  by (relation "measure (\<lambda>(dial, targetAddress, numConnections, i, clients, w). numConnections - i)")
    auto

declare create_clients.simps [simp del]

record ConnectionPool =
  clients :: "Client option list"
  index :: int

text \<open>\<open>NewConnectionPool\<close>; \<open>make\<close> panics on a negative length.\<close>

definition NewConnectionPool ::
    "(nat \<Rightarrow> string option) \<Rightarrow> string \<Rightarrow> int \<Rightarrow> world \<Rightarrow> (pool_error + ConnectionPool) \<times> world" where
  "NewConnectionPool dial targetAddress numConnections w =
     (if numConnections < 0 then (Inl (PoolPanic MakeSliceLenOutOfRange), w)
      else
        (case create_clients dial targetAddress (nat numConnections) 0
                (replicate (nat numConnections) None) w of
           (Inl e, w') \<Rightarrow> (Inl e, w')
         | (Inr cs, w') \<Rightarrow> (Inr \<lparr>clients = cs, index = 0\<rparr>, w')))"

text \<open>\<open>ConnectionPool.Close\<close> closes every client of the pool.\<close>

definition ConnectionPool_Close :: "ConnectionPool \<Rightarrow> world \<Rightarrow> panic + world" where
  "ConnectionPool_Close p w = close_created (clients p) 0 (length (clients p)) w"

section \<open>The runner (package runner)\<close>

text \<open>The fields of \<open>config.BenchmarkConfig\<close> that the modelled functions read; the two
  durations are in nanoseconds.\<close>

record BenchmarkConfig =
  TargetAddress :: string
  NumConnections :: int
  OutputCSV :: string
  KeySpace :: int
  WarmupDuration :: int
  Duration :: int

record BenchmarkRunner =
  config :: BenchmarkConfig
  pool :: ConnectionPool
  collector :: Collector
  startTime :: int

datatype runner_error =
    FailedToCreatePool pool_error
  | FailedToCreateCollector string
  | FailedToCreateKeyGenerator string
  | RunnerPanic panic

text \<open>
  \<open>NewBenchmarkRunner\<close>. The environment gives the outcome of \<open>os.Create\<close>
  (\<open>create_err\<close>), the outcome of \<open>NewKeyGenerator\<close> (\<open>keygen_err\<close>) and the clock at the
  final \<open>time.Now()\<close> (\<open>now\<close>).
\<close>

definition NewBenchmarkRunner ::
    "(nat \<Rightarrow> string option) \<Rightarrow> string option \<Rightarrow> string option \<Rightarrow> int \<Rightarrow> BenchmarkConfig \<Rightarrow> world
       \<Rightarrow> (runner_error + BenchmarkRunner) \<times> world" where
  "NewBenchmarkRunner dial create_err keygen_err now cfg w =
     (case NewConnectionPool dial (TargetAddress cfg) (NumConnections cfg) w of
        (Inl e, w1) \<Rightarrow> (Inl (FailedToCreatePool e), w1)
      | (Inr p, w1) \<Rightarrow>
          (case NewCollector (OutputCSV cfg) create_err of
             Inl e \<Rightarrow>
               (case ConnectionPool_Close p w1 of
                  Inl pn \<Rightarrow> (Inl (RunnerPanic pn), w1)
                | Inr w2 \<Rightarrow> (Inl (FailedToCreateCollector e), w2))
           | Inr c \<Rightarrow>
               (case keygen_err of
                  Some e \<Rightarrow>
                    (case ConnectionPool_Close p w1 of
                       Inl pn \<Rightarrow> (Inl (RunnerPanic pn), w1)
                     | Inr w2 \<Rightarrow> (Inl (FailedToCreateKeyGenerator e), w2))
                | None \<Rightarrow>
                    (Inr \<lparr>config = cfg, pool = p, collector = c, startTime = now\<rparr>, w1))))"

text \<open>
  What the environment decides in one call of \<open>performOperation\<close>: the operation that
  \<open>selectOperation\<close> drew, the duration \<open>time.Since(start)\<close> in nanoseconds, the error of
  the remote call, and the clock at \<open>time.Now()\<close>.
\<close>

record op_outcome =
  op :: string
  elapsed :: int
  err :: "string option"
  finished_at :: int

definition performOperation :: "Collector \<Rightarrow> bool \<Rightarrow> op_outcome \<Rightarrow> Collector" where
  "performOperation c isWarmup out =
     (let latency = Milliseconds (elapsed out);
          result = \<lparr>BenchmarkResult.Method = op out, LatencyMs = real_of_int latency,
                    Error = err out, Timestamp = finished_at out\<rparr>
      in if \<not> isWarmup then Collector_AddResult c result else c)"

text \<open>
  A phase of \<open>runWorkers\<close> as one interleaving of what its goroutines do to the collector:
  a worker performs an operation, or the collector's own goroutine receives one result
  from the channel. The progress reporter only reads.
\<close>

datatype event = WorkerOp op_outcome | CollectorReceive

fun runWorkers :: "bool \<Rightarrow> Collector \<Rightarrow> event list \<Rightarrow> panic + Collector" where
  "runWorkers isWarmup c [] = Inr c"
| "runWorkers isWarmup c (WorkerOp out # evs) =
     runWorkers isWarmup (performOperation c isWarmup out) evs"
| "runWorkers isWarmup c (CollectorReceive # evs) =
     (case run_receive c of Inl p \<Rightarrow> Inl p | Inr c' \<Rightarrow> runWorkers isWarmup c' evs)"

text \<open>
  The clock when \<open>Run\<close> reaches the measuring phase \<open>runWorkers(r.config.Duration, false)\<close>:
  \<open>Run\<close> is called at \<open>run_at\<close>, the health check takes \<open>health_check\<close> nanoseconds, and
  the warm-up phase, when configured, returns once its timeout has passed.
\<close>

definition measuring_began :: "BenchmarkRunner \<Rightarrow> int \<Rightarrow> int \<Rightarrow> int" where
  "measuring_began r run_at health_check =
     run_at + health_check
       + (if WarmupDuration (config r) > 0 then WarmupDuration (config r) else 0)"

text \<open>The values of one progress line.\<close>

record progress_line =
  Total :: int64
  RPS :: f64
  Avg :: f64
  P50 :: real
  P95 :: real
  P99 :: real
  Errors :: int64
  ErrorPct :: real

text \<open>\<open>printProgress\<close> at the clock \<open>now\<close>; \<open>None\<close> when it prints nothing.\<close>

definition printProgress :: "BenchmarkRunner \<Rightarrow> int \<Rightarrow> panic + progress_line option" where
  "printProgress r now =
     (case GetAggregatedStats (collector r) of
        Inl p \<Rightarrow> Inl p
      | Inr stats \<Rightarrow>
          if Stats.Count stats = 0 then Inr None
          else
            let elapsed_s = Seconds (now - startTime r);
                rps = f64_div (float64_of_int64 (Stats.Count stats)) elapsed_s
            in Inr (Some \<lparr>Total = Stats.Count stats, RPS = rps, Avg = AvgLatency stats,
                          P50 = P50Latency stats, P95 = P95Latency stats,
                          P99 = P99Latency stats, Errors = Stats.ErrorCount stats,
                          ErrorPct = ErrorRate stats\<rparr>))"

section \<open>Counting and the bounded sample\<close>

lemma AddResult_failed:
  "Error r \<noteq> None \<Longrightarrow>
   AddResult m r = Inr (m\<lparr>Metrics.Count := Metrics.Count m + 1, Metrics.ErrorCount := Metrics.ErrorCount m + 1\<rparr>)"
  by (simp add: AddResult_def)

lemma AddResult_succeeded:
  assumes "Error r = None" and "0 \<le> maxLatencies m"
  shows "\<exists>m'. AddResult m r = Inr m'
           \<and> Metrics.Count m' = Metrics.Count m + 1
           \<and> Metrics.ErrorCount m' = Metrics.ErrorCount m
           \<and> Metrics.TotalLatency m' = Metrics.TotalLatency m + LatencyMs r
           \<and> maxLatencies m' = maxLatencies m
           \<and> Metrics.Method m' = Metrics.Method m
           \<and> Latencies m' =
               drop (Suc (length (Latencies m)) - nat (maxLatencies m)) (Latencies m @ [LatencyMs r])"
  using assms by (simp add: AddResult_def Let_def)

lemma drop_keep_append:
  "drop (length (drop (length A - C) A @ B) - C) (drop (length A - C) A @ B)
     = drop (length (A @ B) - C) (A @ B)"
proof (cases "length A \<le> C")
  case True
  then show ?thesis by simp
next
  case False
  then have "length (drop (length A - C) A @ B) - C = length B"
    and "length (A @ B) - C = (length A - C) + length B"
    by simp_all
  then show ?thesis by (simp add: add.commute)
qed

lemma success_latencies_Cons:
  "success_latencies (r # rs) =
     (if Error r = None then LatencyMs r # success_latencies rs else success_latencies rs)"
  by (simp add: success_latencies_def succeeded_def)

lemma AddResults_general:
  assumes "0 \<le> maxLatencies m"
  shows "\<exists>m'. AddResults m rs = Inr m'
           \<and> Metrics.Count m' = Metrics.Count m + of_nat (length rs)
           \<and> Metrics.ErrorCount m' = Metrics.ErrorCount m + of_nat (length (filter failed rs))
           \<and> Metrics.TotalLatency m' = Metrics.TotalLatency m + sum_list (success_latencies rs)
           \<and> maxLatencies m' = maxLatencies m
           \<and> Latencies m' =
               (if success_latencies rs = [] then Latencies m
                else drop (length (Latencies m @ success_latencies rs) - nat (maxLatencies m))
                       (Latencies m @ success_latencies rs))"
  using assms
proof (induction rs arbitrary: m)
  case Nil
  then show ?case by (simp add: success_latencies_def)
next
  case (Cons r rs)
  show ?case
  proof (cases "Error r = None")
    case False
    let ?m1 = "m\<lparr>Metrics.Count := Metrics.Count m + 1, Metrics.ErrorCount := Metrics.ErrorCount m + 1\<rparr>"
    have step: "AddResult m r = Inr ?m1"
      using False by (rule AddResult_failed)
    have "0 \<le> maxLatencies ?m1"
      using Cons.prems by simp
    from Cons.IH [OF this] obtain m' where
      "AddResults ?m1 rs = Inr m'"
      "Metrics.Count m' = Metrics.Count ?m1 + of_nat (length rs)"
      "Metrics.ErrorCount m' = Metrics.ErrorCount ?m1 + of_nat (length (filter failed rs))"
      "Metrics.TotalLatency m' = Metrics.TotalLatency ?m1 + sum_list (success_latencies rs)"
      "maxLatencies m' = maxLatencies ?m1"
      "Latencies m' =
         (if success_latencies rs = [] then Latencies ?m1
          else drop (length (Latencies ?m1 @ success_latencies rs) - nat (maxLatencies ?m1))
                 (Latencies ?m1 @ success_latencies rs))"
      by blast
    moreover have "failed r"
      using False by (simp add: failed_def)
    moreover have "success_latencies (r # rs) = success_latencies rs"
      using False by (simp add: success_latencies_Cons)
    ultimately show ?thesis
      using step by simp
  next
    case True
    from AddResult_succeeded [OF True Cons.prems] obtain m1 where
      step: "AddResult m r = Inr m1"
      and m1: "Metrics.Count m1 = Metrics.Count m + 1" "Metrics.ErrorCount m1 = Metrics.ErrorCount m"
        "Metrics.TotalLatency m1 = Metrics.TotalLatency m + LatencyMs r"
        "maxLatencies m1 = maxLatencies m"
        "Latencies m1 =
           drop (Suc (length (Latencies m)) - nat (maxLatencies m)) (Latencies m @ [LatencyMs r])"
      by blast
    have l1: "Latencies m1 =
        drop (length (Latencies m @ [LatencyMs r]) - nat (maxLatencies m)) (Latencies m @ [LatencyMs r])"
      using m1 by simp
    have "0 \<le> maxLatencies m1"
      using Cons.prems m1 by simp
    from Cons.IH [OF this] obtain m' where
      m': "AddResults m1 rs = Inr m'"
      "Metrics.Count m' = Metrics.Count m1 + of_nat (length rs)"
      "Metrics.ErrorCount m' = Metrics.ErrorCount m1 + of_nat (length (filter failed rs))"
      "Metrics.TotalLatency m' = Metrics.TotalLatency m1 + sum_list (success_latencies rs)"
      "maxLatencies m' = maxLatencies m1"
      "Latencies m' =
         (if success_latencies rs = [] then Latencies m1
          else drop (length (Latencies m1 @ success_latencies rs) - nat (maxLatencies m1))
                 (Latencies m1 @ success_latencies rs))"
      by blast
    have "Latencies m' =
        drop (length (Latencies m @ LatencyMs r # success_latencies rs) - nat (maxLatencies m))
          (Latencies m @ LatencyMs r # success_latencies rs)"
    proof (cases "success_latencies rs = []")
      case True
      with m'(6) l1 show ?thesis by simp
    next
      case False
      with m'(6) have "Latencies m' =
          drop (length (Latencies m1 @ success_latencies rs) - nat (maxLatencies m))
            (Latencies m1 @ success_latencies rs)"
        by (simp add: m1(4))
      then show ?thesis
        using drop_keep_append [of "Latencies m @ [LatencyMs r]" "nat (maxLatencies m)"
            "success_latencies rs"]
        by (simp add: l1)
    qed
    moreover have "\<not> failed r"
      using True by (simp add: failed_def)
    moreover have "success_latencies (r # rs) = LatencyMs r # success_latencies rs"
      using True by (simp add: success_latencies_Cons)
    ultimately show ?thesis
      using step m' m1 by simp
  qed
qed


lemma sint_of_nat64:
  assumes "n < 2 ^ 63"
  shows "sint (of_nat n :: int64) = int n"
proof -
  have "int n < 2 ^ 63"
    using assms by (metis of_nat_less_iff of_nat_numeral of_nat_power)
  moreover have "- (2 ^ 63) \<le> int n"
    by (rule order_trans [of _ 0]) simp_all
  ultimately have "signed_take_bit 63 (int n) = int n"
    by (rule signed_take_bit_int_eq_self [rotated])
  moreover have "sint (of_nat n :: int64) = signed_take_bit 63 (int n)"
    using sint_sbintrunc' [where ?'a = 64, of "int n"] by simp
  ultimately show ?thesis by simp
qed

text \<open>
  Claim C1. Starting from a fresh per-kind metrics instance, after ingesting any sequence
  of results with \<open>k\<close> successes and \<open>e\<close> failures (fewer than \<open>2^63\<close> results, the range of
  the \<open>int64\<close> counters), every call returns, \<open>Count = k + e\<close>, \<open>ErrorCount = e\<close>, and
  \<open>TotalLatency\<close> is the sum of the latencies of the \<open>k\<close> successes alone; hence
  \<open>Count \<ge> ErrorCount \<ge> 0\<close> after every \<open>AddResult\<close> call, each prefix of the sequence
  being such a sequence.
\<close>

theorem AddResult_counts:
  assumes "length rs < 2 ^ 63"
  shows "\<exists>m. AddResults (NewMetrics kind) rs = Inr m
           \<and> sint (Metrics.Count m)
               = int (length (filter succeeded rs)) + int (length (filter failed rs))
           \<and> sint (Metrics.ErrorCount m) = int (length (filter failed rs))
           \<and> Metrics.TotalLatency m = sum_list (map LatencyMs (filter succeeded rs))
           \<and> 0 \<le> sint (Metrics.ErrorCount m)
           \<and> sint (Metrics.ErrorCount m) \<le> sint (Metrics.Count m)"
proof -
  have mx: "0 \<le> maxLatencies (NewMetrics kind)"
    by (simp add: NewMetrics_def)
  from AddResults_general [OF mx, of rs] obtain m where
    run: "AddResults (NewMetrics kind) rs = Inr m"
    and c: "Metrics.Count m = Metrics.Count (NewMetrics kind) + of_nat (length rs)"
    and e: "Metrics.ErrorCount m
              = Metrics.ErrorCount (NewMetrics kind) + of_nat (length (filter failed rs))"
    and t: "Metrics.TotalLatency m
              = Metrics.TotalLatency (NewMetrics kind) + sum_list (success_latencies rs)"
    by blast
  have "failed = (\<lambda>r. \<not> succeeded r)"
    by (simp add: failed_def succeeded_def fun_eq_iff)
  then have split: "length rs = length (filter succeeded rs) + length (filter failed rs)"
    using sum_length_filter_compl [of succeeded rs] by simp
  have le: "length (filter failed rs) \<le> length rs"
    by (rule length_filter_le)
  have lt: "length (filter failed rs) < 2 ^ 63"
    using le assms by (rule le_less_trans)
  have "sint (Metrics.Count m) = int (length rs)"
    using c sint_of_nat64 [OF assms] by (simp add: NewMetrics_def)
  moreover have "sint (Metrics.ErrorCount m) = int (length (filter failed rs))"
    using e sint_of_nat64 [OF lt] by (simp add: NewMetrics_def)
  moreover have "Metrics.TotalLatency m = sum_list (map LatencyMs (filter succeeded rs))"
    using t by (simp add: NewMetrics_def success_latencies_def)
  ultimately show ?thesis
    using run split le by simp
qed

theorem AddResult_counts_witness:
  "length [\<lparr>BenchmarkResult.Method = ''Get'', LatencyMs = 2, Error = None, Timestamp = 0\<rparr>,
           \<lparr>BenchmarkResult.Method = ''Get'', LatencyMs = 7, Error = Some ''timeout'', Timestamp = 1\<rparr>,
           \<lparr>BenchmarkResult.Method = ''Get'', LatencyMs = 3, Error = None, Timestamp = 2\<rparr>]
     < (2::nat) ^ 63
   \<and> (\<exists>m. AddResults (NewMetrics ''Get'')
          [\<lparr>BenchmarkResult.Method = ''Get'', LatencyMs = 2, Error = None, Timestamp = 0\<rparr>,
           \<lparr>BenchmarkResult.Method = ''Get'', LatencyMs = 7, Error = Some ''timeout'', Timestamp = 1\<rparr>,
           \<lparr>BenchmarkResult.Method = ''Get'', LatencyMs = 3, Error = None, Timestamp = 2\<rparr>] = Inr m
        \<and> sint (Metrics.Count m) = 3 \<and> sint (Metrics.ErrorCount m) = 1
        \<and> Metrics.TotalLatency m = 5)"
proof -
  let ?rs = "[\<lparr>BenchmarkResult.Method = ''Get'', LatencyMs = 2, Error = None, Timestamp = 0\<rparr>,
           \<lparr>BenchmarkResult.Method = ''Get'', LatencyMs = 7, Error = Some ''timeout'', Timestamp = 1\<rparr>,
           \<lparr>BenchmarkResult.Method = ''Get'', LatencyMs = 3, Error = None, Timestamp = 2\<rparr>]"
  have h: "length ?rs < (2::nat) ^ 63"
    by simp
  have k: "int (length (filter succeeded ?rs)) = 2"
    and e: "int (length (filter failed ?rs)) = 1"
    and t: "sum_list (map LatencyMs (filter succeeded ?rs)) = 5"
    by (simp_all add: succeeded_def failed_def)
  from AddResult_counts [OF h, of "''Get''"] obtain m where
    "AddResults (NewMetrics ''Get'') ?rs = Inr m"
    "sint (Metrics.Count m) = int (length (filter succeeded ?rs)) + int (length (filter failed ?rs))"
    "sint (Metrics.ErrorCount m) = int (length (filter failed ?rs))"
    "Metrics.TotalLatency m = sum_list (map LatencyMs (filter succeeded ?rs))"
    by blast
  then have "AddResults (NewMetrics ''Get'') ?rs = Inr m \<and> sint (Metrics.Count m) = 3
      \<and> sint (Metrics.ErrorCount m) = 1 \<and> Metrics.TotalLatency m = 5"
    unfolding k e t by simp
  then show ?thesis
    using h by blast
qed

text \<open>
  Claim C5. For a per-kind metrics instance with sample capacity \<open>C \<ge> 0\<close>, whatever it
  held before, after ingesting a sequence with more than \<open>C\<close> successful results (failures
  may be interleaved) the sample \<open>Latencies\<close> is exactly the last \<open>C\<close> successful latencies
  in ingestion order: the oldest are evicted first.
\<close>

theorem bounded_sample_fifo:
  assumes "0 \<le> C" and "maxLatencies m = C"
    and "int (length (success_latencies rs)) > C"
  shows "\<exists>m'. AddResults m rs = Inr m'
           \<and> Latencies m' = drop (length (success_latencies rs) - nat C) (success_latencies rs)
           \<and> int (length (Latencies m')) = C"
proof -
  let ?S = "success_latencies rs"
  have mx: "0 \<le> maxLatencies m"
    using assms by simp
  from AddResults_general [OF mx, of rs] obtain m' where
    run: "AddResults m rs = Inr m'"
    and l: "Latencies m' =
      (if ?S = [] then Latencies m
       else drop (length (Latencies m @ ?S) - nat (maxLatencies m)) (Latencies m @ ?S))"
    by blast
  have ne: "?S \<noteq> []" and ge: "nat C \<le> length ?S"
    using assms by auto
  have "length (Latencies m @ ?S) - nat C = length (Latencies m) + (length ?S - nat C)"
    using ge by simp
  then have "Latencies m' = drop (length ?S - nat C) ?S"
    using l ne assms(2) by simp
  moreover from this have "int (length (Latencies m')) = C"
    using ge assms(1) by simp
  ultimately show ?thesis
    using run by simp
qed

theorem bounded_sample_fifo_witness:
  "(0::int) \<le> 2 \<and> maxLatencies (SetMaxLatencies (NewMetrics ''Put'') 2) = 2
   \<and> int (length (success_latencies
        [\<lparr>BenchmarkResult.Method = ''Put'', LatencyMs = 4, Error = None, Timestamp = 0\<rparr>,
         \<lparr>BenchmarkResult.Method = ''Put'', LatencyMs = 9, Error = None, Timestamp = 1\<rparr>,
         \<lparr>BenchmarkResult.Method = ''Put'', LatencyMs = 6, Error = None, Timestamp = 2\<rparr>])) > 2
   \<and> (\<exists>m'. AddResults (SetMaxLatencies (NewMetrics ''Put'') 2)
        [\<lparr>BenchmarkResult.Method = ''Put'', LatencyMs = 4, Error = None, Timestamp = 0\<rparr>,
         \<lparr>BenchmarkResult.Method = ''Put'', LatencyMs = 9, Error = None, Timestamp = 1\<rparr>,
         \<lparr>BenchmarkResult.Method = ''Put'', LatencyMs = 6, Error = None, Timestamp = 2\<rparr>] = Inr m'
        \<and> Latencies m' = [9, 6])"
proof -
  let ?rs = "[\<lparr>BenchmarkResult.Method = ''Put'', LatencyMs = 4, Error = None, Timestamp = 0\<rparr>,
         \<lparr>BenchmarkResult.Method = ''Put'', LatencyMs = 9, Error = None, Timestamp = 1\<rparr>,
         \<lparr>BenchmarkResult.Method = ''Put'', LatencyMs = 6, Error = None, Timestamp = 2\<rparr>]"
  let ?m = "SetMaxLatencies (NewMetrics ''Put'') 2"
  have s: "success_latencies ?rs = [4, 9, 6]"
    by (simp add: success_latencies_def succeeded_def)
  have h1: "(0::int) \<le> 2" and h2: "maxLatencies ?m = 2"
    and h3: "int (length (success_latencies ?rs)) > 2"
    unfolding s by (simp_all add: SetMaxLatencies_def)
  from bounded_sample_fifo [OF h1 h2 h3] obtain m' where
    "AddResults ?m ?rs = Inr m'"
    "Latencies m' = drop (length (success_latencies ?rs) - nat 2) (success_latencies ?rs)"
    by blast
  then have "AddResults ?m ?rs = Inr m' \<and> Latencies m' = [9, 6]"
    unfolding s by simp
  then show ?thesis
    using h1 h2 h3 by blast
qed

section \<open>Percentiles\<close>

lemma percentile_in_range:
  assumes "vs \<noteq> []" and "0 \<le> p" and "p \<le> 100"
  shows "percentile vs p
           = Inr (interpolated_rank vs (real_of_int p / 100 * real (length vs - 1)))"
proof -
  define r where "r = real_of_int p / 100 * real_of_int (int (length vs) - 1)"
  have n: "0 < length vs"
    using assms(1) by simp
  have "Suc 0 \<le> length vs"
    using assms(1) by (cases vs) simp_all
  from of_nat_diff [OF this, where ?'a = real]
  have rn: "real_of_int (int (length vs) - 1) = real (length vs - 1)"
    by simp
  have d0: "0 \<le> real_of_int (int (length vs) - 1)"
    unfolding rn by simp
  have "0 \<le> real_of_int p / 100"
    using assms(2) by simp
  then have r0: "0 \<le> r"
    unfolding r_def using d0 by (rule mult_nonneg_nonneg)
  have "real_of_int p / 100 \<le> 1"
    using assms(3) by simp
  then have "r \<le> 1 * real_of_int (int (length vs) - 1)"
    unfolding r_def using d0 by (rule mult_right_mono)
  then have rle: "r \<le> real_of_int (int (length vs) - 1)"
    by simp
  have fl: "int_of_float64 r = \<lfloor>r\<rfloor>"
    using r0 by (simp add: int_of_float64_def)
  have f0: "0 \<le> \<lfloor>r\<rfloor>"
    using r0 by simp
  have "\<lfloor>r\<rfloor> \<le> \<lfloor>real_of_int (int (length vs) - 1)\<rfloor>"
    using rle by (rule floor_mono)
  then have fle: "\<lfloor>r\<rfloor> \<le> int (length vs) - 1"
    by (simp only: floor_of_int)
  have spec: "real_of_int p / 100 * real (length vs - 1) = r"
    by (simp only: r_def rn)
  show ?thesis
  proof (cases "r = real_of_int \<lfloor>r\<rfloor>")
    case True
    have "index_slice vs \<lfloor>r\<rfloor> = Inr (vs ! nat \<lfloor>r\<rfloor>)"
      using f0 fle by (simp add: index_slice_def)
    moreover have "interpolated_rank vs r = vs ! nat \<lfloor>r\<rfloor>"
      using True by (simp add: interpolated_rank_def)
    moreover have "percentile vs p = index_slice vs \<lfloor>r\<rfloor>"
      unfolding percentile_def Let_def r_def [symmetric]
      using True n fl by simp
    ultimately show ?thesis
      by (simp only: spec)
  next
    case False
    have "real_of_int \<lfloor>r\<rfloor> \<le> r"
      by (rule of_int_floor_le)
    moreover have "real_of_int \<lfloor>r\<rfloor> \<noteq> r"
      using False by (rule not_sym)
    ultimately have "real_of_int \<lfloor>r\<rfloor> < r"
      by (rule le_neq_trans)
    then have "real_of_int \<lfloor>r\<rfloor> < real_of_int (int (length vs) - 1)"
      using rle by simp
    then have up: "\<lfloor>r\<rfloor> + 1 < int (length vs)"
      by simp
    have lo: "index_slice vs \<lfloor>r\<rfloor> = Inr (vs ! nat \<lfloor>r\<rfloor>)"
      using f0 up by (simp add: index_slice_def)
    have hi: "index_slice vs (\<lfloor>r\<rfloor> + 1) = Inr (vs ! (nat \<lfloor>r\<rfloor> + 1))"
      using f0 up by (simp add: index_slice_def nat_add_distrib)
    have "percentile vs p
            = Inr (vs ! nat \<lfloor>r\<rfloor>
                   + (r - real_of_int \<lfloor>r\<rfloor>) * (vs ! (nat \<lfloor>r\<rfloor> + 1) - vs ! nat \<lfloor>r\<rfloor>))"
      unfolding percentile_def Let_def r_def [symmetric]
      using False n fl up lo hi by simp
    moreover have "interpolated_rank vs r
            = (1 - (r - real_of_int \<lfloor>r\<rfloor>)) * vs ! nat \<lfloor>r\<rfloor>
              + (r - real_of_int \<lfloor>r\<rfloor>) * vs ! (nat \<lfloor>r\<rfloor> + 1)"
      using False by (simp add: interpolated_rank_def Let_def)
    ultimately show ?thesis
      unfolding spec by (simp add: algebra_simps)
  qed
qed

lemma percentile_12345_50: "percentile [1, 2, 3, 4, 5] 50 = Inr 3"
  by (simp add: percentile_def int_of_float64_def index_slice_def Let_def)

lemma percentile_12345_99: "percentile [1, 2, 3, 4, 5] 99 = Inr (124 / 25)"
  by (simp add: percentile_def int_of_float64_def index_slice_def Let_def)

text \<open>
  Claim C6. For every non-empty sample and every \<open>p\<close> from 0 to 100, \<open>percentile\<close> applied
  to the sorted sample is the value at the linear-interpolated rank \<open>p/100 * (n-1)\<close>; for
  the sample 1, 2, 3, 4, 5 the 50th percentile is 3 and the 99th is 4.96.
\<close>

theorem percentile_interpolates:
  "(xs \<noteq> [] \<and> 0 \<le> p \<and> p \<le> 100 \<longrightarrow>
      percentile (sort xs) p
        = Inr (interpolated_rank (sort xs) (real_of_int p / 100 * real (length xs - 1))))
   \<and> percentile [1, 2, 3, 4, 5] 50 = Inr 3
   \<and> percentile [1, 2, 3, 4, 5] 99 = Inr (496 / 100)"
proof -
  have "percentile (sort xs) p
          = Inr (interpolated_rank (sort xs) (real_of_int p / 100 * real (length xs - 1)))"
    if "xs \<noteq> []" "0 \<le> p" "p \<le> 100"
  proof -
    have "sort xs \<noteq> []"
      using that(1) by (metis length_sort length_0_conv)
    from percentile_in_range [OF this that(2,3)] show ?thesis
      by simp
  qed
  then show ?thesis
    using percentile_12345_50 percentile_12345_99 by simp
qed

theorem percentile_interpolates_witness:
  "[5, 3, 1, 4, 2] \<noteq> ([] :: real list) \<and> (0::int) \<le> 99 \<and> (99::int) \<le> 100
   \<and> percentile (sort [5, 3, 1, 4, 2]) 99
       = Inr (interpolated_rank (sort [5, 3, 1, 4, 2]) (real_of_int 99 / 100 * real (length [5, 3, 1, 4, 2 :: real] - 1)))
   \<and> interpolated_rank (sort [5, 3, 1, 4, 2]) (real_of_int 99 / 100 * real (length [5, 3, 1, 4, 2 :: real] - 1))
       = 496 / 100"
proof -
  have "interpolated_rank (sort [5, 3, 1, 4, 2]) (real_of_int 99 / 100 * real (length [5, 3, 1, 4, 2 :: real] - 1))
       = 496 / 100"
    by (simp add: interpolated_rank_def Let_def)
  then show ?thesis
    using percentile_interpolates [of "[5, 3, 1, 4, 2]" 99] by simp
qed

section \<open>Snapshots\<close>

lemma percentile_returns:
  assumes "0 \<le> p" and "p \<le> 100"
  shows "\<exists>v. percentile vs p = Inr v"
proof (cases "vs = []")
  case True
  then show ?thesis by (simp add: percentile_def)
next
  case False
  from percentile_in_range [OF False assms] show ?thesis by blast
qed

lemma copy_slice_fresh: "copy_slice (replicate (length src) 0) src = src"
  by (simp add: copy_slice_def)

lemma GetStats_receiver: "snd (GetStats m) = m"
  by (simp add: GetStats_def Let_def split: sum.splits)

lemma GetStats_returns: "\<exists>s. fst (GetStats m) = Inr s"
proof -
  obtain p50 p95 p99 where
    "percentile (sort (Latencies m)) 50 = Inr p50"
    "percentile (sort (Latencies m)) 95 = Inr p95"
    "percentile (sort (Latencies m)) 99 = Inr p99"
    using percentile_returns [of 50 "sort (Latencies m)"]
      percentile_returns [of 95 "sort (Latencies m)"]
      percentile_returns [of 99 "sort (Latencies m)"]
    by auto
  then show ?thesis
    by (simp add: GetStats_def Let_def copy_slice_fresh)
qed

text \<open>
  Claim C9. \<open>GetStats\<close> returns statistics (it never panics) and leaves the metrics as they
  were, so a second call with no ingestion in between returns the same statistics.
\<close>

theorem GetStats_twice:
  "\<exists>s. GetStats m = (Inr s, m) \<and> GetStats (snd (GetStats m)) = (Inr s, m)"
proof -
  obtain s where "fst (GetStats m) = Inr s"
    using GetStats_returns by blast
  then have "GetStats m = (Inr s, m)"
    using GetStats_receiver [of m] by (simp add: prod_eq_iff)
  then show ?thesis
    by simp
qed

lemma GetAggregatedStats_returns_avg:
  assumes "sum_list (map Metrics.Count (map snd (metrics c))) \<noteq> 0"
  shows "\<exists>s. GetAggregatedStats c = Inr s
           \<and> AvgLatency s
               = f64_div (sum_list (map Metrics.TotalLatency (map snd (metrics c))))
                   (float64_of_int64 (sum_list (map Metrics.Count (map snd (metrics c)))
                      - sum_list (map Metrics.ErrorCount (map snd (metrics c)))))"
proof -
  let ?all = "sort (concat (map Latencies (map snd (metrics c))))"
  obtain p50 p95 p99 where
    "percentile ?all 50 = Inr p50" "percentile ?all 95 = Inr p95" "percentile ?all 99 = Inr p99"
    using percentile_returns [of 50 ?all] percentile_returns [of 95 ?all]
      percentile_returns [of 99 ?all]
    by auto
  with assms show ?thesis
    by (simp add: GetAggregatedStats_def Let_def)
qed

text \<open>
  Claim C10. When at least one record has been ingested and every ingested record failed
  (the total count is positive and equals the total error count), \<open>GetAggregatedStats\<close>
  divides the latency sum by the zero success count, so its average latency is not a
  finite number; the per-kind \<open>GetStats\<close> returns in that state the zero statistics with
  an error rate of 100 instead.
\<close>

theorem GetAggregatedStats_all_failed:
  assumes "0 < sint (sum_list (map Metrics.Count (map snd (metrics c))))"
    and "sum_list (map Metrics.ErrorCount (map snd (metrics c)))
           = sum_list (map Metrics.Count (map snd (metrics c)))"
  shows "(\<exists>s. GetAggregatedStats c = Inr s
            \<and> AvgLatency s
                = f64_div (sum_list (map Metrics.TotalLatency (map snd (metrics c)))) 0
            \<and> AvgLatency s \<in> {NaN, PosInf, NegInf})
         \<and> (Metrics.Count m \<noteq> 0 \<and> Metrics.ErrorCount m = Metrics.Count m \<longrightarrow>
               GetStats m
                 = (Inr (Stats_zero\<lparr>Stats.Method := Metrics.Method m,
                           Stats.Count := Metrics.Count m,
                           Stats.ErrorCount := Metrics.ErrorCount m, ErrorRate := 100\<rparr>), m))"
proof -
  have nz: "sum_list (map Metrics.Count (map snd (metrics c))) \<noteq> 0"
    using assms(1) by auto
  from GetAggregatedStats_returns_avg [OF nz] obtain s where
    s: "GetAggregatedStats c = Inr s"
    and avg: "AvgLatency s
               = f64_div (sum_list (map Metrics.TotalLatency (map snd (metrics c))))
                   (float64_of_int64 (sum_list (map Metrics.Count (map snd (metrics c)))
                      - sum_list (map Metrics.ErrorCount (map snd (metrics c)))))"
    by blast
  have avg0: "AvgLatency s
               = f64_div (sum_list (map Metrics.TotalLatency (map snd (metrics c)))) 0"
    using avg assms(2) by (simp add: float64_of_int64_def)
  then have "AvgLatency s \<in> {NaN, PosInf, NegInf}"
    by (simp add: f64_div_def)
  moreover have "GetStats m
      = (Inr (Stats_zero\<lparr>Stats.Method := Metrics.Method m, Stats.Count := Metrics.Count m,
                Stats.ErrorCount := Metrics.ErrorCount m, ErrorRate := 100\<rparr>), m)"
    if "Metrics.Count m \<noteq> 0" "Metrics.ErrorCount m = Metrics.Count m"
    using that by (simp add: GetStats_def)
  ultimately show ?thesis
    using s avg0 by blast
qed

theorem GetAggregatedStats_all_failed_witness:
  "processResult
      \<lparr>metrics = [], results = [], done_closed = False, csvWriter = None, csvFile_closed = False\<rparr>
      \<lparr>BenchmarkResult.Method = ''Get'', LatencyMs = 30, Error = Some ''unavailable'', Timestamp = 0\<rparr>
     = Inr \<lparr>metrics = [(''Get'', (NewMetrics ''Get'')\<lparr>Metrics.Count := 1, Metrics.ErrorCount := 1\<rparr>)],
            results = [], done_closed = False, csvWriter = None, csvFile_closed = False\<rparr>
   \<and> (\<exists>s. GetAggregatedStats
          \<lparr>metrics = [(''Get'', (NewMetrics ''Get'')\<lparr>Metrics.Count := 1, Metrics.ErrorCount := 1\<rparr>)],
           results = [], done_closed = False, csvWriter = None, csvFile_closed = False\<rparr> = Inr s
        \<and> AvgLatency s = NaN)
   \<and> (\<exists>s. fst (GetStats ((NewMetrics ''Get'')\<lparr>Metrics.Count := 1, Metrics.ErrorCount := 1\<rparr>)) = Inr s
        \<and> AvgLatency s = Finite 0 \<and> ErrorRate s = 100)"
proof -
  let ?m = "(NewMetrics ''Get'')\<lparr>Metrics.Count := 1, Metrics.ErrorCount := 1\<rparr>"
  let ?c = "\<lparr>metrics = [(''Get'', ?m)], results = [], done_closed = False, csvWriter = None,
             csvFile_closed = False\<rparr>"
  have h1: "0 < sint (sum_list (map Metrics.Count (map snd (metrics ?c))))"
    and h2: "sum_list (map Metrics.ErrorCount (map snd (metrics ?c)))
               = sum_list (map Metrics.Count (map snd (metrics ?c)))"
    by simp_all
  have t: "f64_div (sum_list (map Metrics.TotalLatency (map snd (metrics ?c)))) 0 = NaN"
    by (simp add: f64_div_def NewMetrics_def)
  have g: "Metrics.Count ?m \<noteq> 0 \<and> Metrics.ErrorCount ?m = Metrics.Count ?m"
    by simp
  from GetAggregatedStats_all_failed [OF h1 h2, of ?m] g t
  have "(\<exists>s. GetAggregatedStats ?c = Inr s \<and> AvgLatency s = NaN)"
    and "GetStats ?m
           = (Inr (Stats_zero\<lparr>Stats.Method := Metrics.Method ?m, Stats.Count := Metrics.Count ?m,
                     Stats.ErrorCount := Metrics.ErrorCount ?m, ErrorRate := 100\<rparr>), ?m)"
    by auto
  moreover have "processResult
      \<lparr>metrics = [], results = [], done_closed = False, csvWriter = None, csvFile_closed = False\<rparr>
      \<lparr>BenchmarkResult.Method = ''Get'', LatencyMs = 30, Error = Some ''unavailable'', Timestamp = 0\<rparr>
     = Inr ?c"
    by (simp add: processResult_def AddResult_def Let_def NewMetrics_def)
  ultimately show ?thesis
    by (simp add: Stats_zero_def)
qed

section \<open>Warm-up\<close>

text \<open>
  Claim C8. With the warm-up flag set, \<open>performOperation\<close> leaves the collector as it
  was, so a warm-up phase that starts with an empty channel leaves the whole collector,
  and with it every per-kind metrics instance, unchanged, whatever the workers and the
  collector's goroutine do in whatever order; without the flag the result is handed to
  \<open>Collector.AddResult\<close>.
\<close>

theorem warmup_leaves_collector:
  assumes "results c = []"
  shows "runWorkers True c evs = Inr c
         \<and> performOperation c True out = c
         \<and> performOperation c False out
             = Collector_AddResult c
                 \<lparr>BenchmarkResult.Method = op out,
                  LatencyMs = real_of_int (Milliseconds (elapsed out)),
                  Error = err out, Timestamp = finished_at out\<rparr>"
proof -
  have "runWorkers True c evs = Inr c"
  proof (induction evs)
    case Nil
    show ?case by simp
  next
    case (Cons ev evs)
    show ?case
    proof (cases ev)
      case (WorkerOp o1)
      with Cons show ?thesis
        by (simp add: performOperation_def)
    next
      case CollectorReceive
      with Cons assms show ?thesis
        by (simp add: run_receive_def)
    qed
  qed
  then show ?thesis
    by (simp add: performOperation_def)
qed

theorem warmup_leaves_collector_witness:
  "results \<lparr>metrics = [], results = [], done_closed = False, csvWriter = None,
            csvFile_closed = False\<rparr> = []
   \<and> runWorkers True
        \<lparr>metrics = [], results = [], done_closed = False, csvWriter = None, csvFile_closed = False\<rparr>
        [WorkerOp \<lparr>op = ''Put'', elapsed = 2500000, err = None, finished_at = 10\<rparr>,
         CollectorReceive,
         WorkerOp \<lparr>op = ''Get'', elapsed = 900000, err = Some ''not found'', finished_at = 20\<rparr>]
       = Inr \<lparr>metrics = [], results = [], done_closed = False, csvWriter = None,
              csvFile_closed = False\<rparr>"
proof -
  have h: "results \<lparr>metrics = [], results = [], done_closed = False, csvWriter = None,
            csvFile_closed = False\<rparr> = []"
    by simp
  from warmup_leaves_collector [OF h, where evs =
      "[WorkerOp \<lparr>op = ''Put'', elapsed = 2500000, err = None, finished_at = 10\<rparr>,
        CollectorReceive,
        WorkerOp \<lparr>op = ''Get'', elapsed = 900000, err = Some ''not found'', finished_at = 20\<rparr>]"]
  have "runWorkers True
        \<lparr>metrics = [], results = [], done_closed = False, csvWriter = None, csvFile_closed = False\<rparr>
        [WorkerOp \<lparr>op = ''Put'', elapsed = 2500000, err = None, finished_at = 10\<rparr>,
         CollectorReceive,
         WorkerOp \<lparr>op = ''Get'', elapsed = 900000, err = Some ''not found'', finished_at = 20\<rparr>]
       = Inr \<lparr>metrics = [], results = [], done_closed = False, csvWriter = None,
              csvFile_closed = False\<rparr>"
    by (rule conjunct1)
  with h show ?thesis
    by (rule conjI)
qed

section \<open>Construction of the connection pool\<close>

lemma close_created_range:
  assumes "\<forall>t<i. cs ! t = Some \<lparr>conn = d0 + t\<rparr>" and "i \<le> length cs" and "j \<le> i"
  shows "\<exists>w'. close_created cs j i w = Inr w'
           \<and> open_conns w' = filter (\<lambda>c. c \<notin> {d0 + j..<d0 + i}) (open_conns w)
           \<and> dials w' = dials w"
  using assms(3)
proof (induction "i - j" arbitrary: j w)
  case 0
  then have "j = i"
    by simp
  then show ?case
    by (subst close_created.simps) simp
next
  case (Suc d)
  then have lt: "j < i" and d: "d = i - (j + 1)" and le: "j + 1 \<le> i"
    by simp_all
  have slot: "cs ! j = Some \<lparr>conn = d0 + j\<rparr>" and inb: "j < length cs"
    using assms(1,2) lt by simp_all
  from Suc.hyps(1) [OF d le, of "Client_Close \<lparr>conn = d0 + j\<rparr> w"] obtain w' where
    run: "close_created cs (j + 1) i (Client_Close \<lparr>conn = d0 + j\<rparr> w) = Inr w'"
    and opn: "open_conns w'
        = filter (\<lambda>c. c \<notin> {d0 + (j + 1)..<d0 + i}) (open_conns (Client_Close \<lparr>conn = d0 + j\<rparr> w))"
    and dl: "dials w' = dials (Client_Close \<lparr>conn = d0 + j\<rparr> w)"
    by blast
  have "close_created cs j i w = Inr w'"
    using lt inb slot run by (subst close_created.simps) simp
  moreover have "open_conns w' = filter (\<lambda>c. c \<notin> {d0 + j..<d0 + i}) (open_conns w)"
    unfolding opn Client_Close_def using lt
    by (auto simp: removeAll_filter_not_eq intro!: filter_cong)
  moreover have "dials w' = dials w"
    using dl by (simp add: Client_Close_def)
  ultimately show ?case
    by blast
qed

lemma create_clients_fails:
  assumes "k < n" and "dial (d0 + k) = Some e"
    and "\<forall>j<k. dial (d0 + j) = None"
    and "i \<le> k" and "dials w = d0 + i" and "length cs = n"
    and "\<forall>t<i. cs ! t = Some \<lparr>conn = d0 + t\<rparr>"
  shows "\<exists>w'. create_clients dial addr n i cs w
             = (Inl (CreateClientFailed k (''failed to connect to '' @ addr @ '': '' @ e)), w')
           \<and> open_conns w' = filter (\<lambda>c. c \<notin> {d0..<d0 + k}) (open_conns w)
           \<and> dials w' = d0 + k + 1"
  using assms(4-)
proof (induction "k - i" arbitrary: i cs w)
  case 0
  then have ik: "i = k"
    by simp
  let ?w1 = "w\<lparr>dials := dials w + 1\<rparr>"
  have new: "NewClient dial addr w
               = (Inl (''failed to connect to '' @ addr @ '': '' @ e), ?w1)"
    using assms(2) "0.prems"(2) ik by (simp add: NewClient_def)
  have "k \<le> length cs"
    using assms(1) "0.prems"(3) by simp
  from close_created_range [of k cs d0 0 ?w1] "0.prems"(4) ik this obtain w2 where
    cl: "close_created cs 0 k ?w1 = Inr w2"
    and opn: "open_conns w2 = filter (\<lambda>c. c \<notin> {d0 + 0..<d0 + k}) (open_conns ?w1)"
    and dl: "dials w2 = dials ?w1"
    by blast
  have "create_clients dial addr n i cs w
          = (Inl (CreateClientFailed k (''failed to connect to '' @ addr @ '': '' @ e)), w2)"
    using assms(1) ik new cl by (subst create_clients.simps) simp
  moreover have "open_conns w2 = filter (\<lambda>c. c \<notin> {d0..<d0 + k}) (open_conns w)"
    using opn by simp
  moreover have "dials w2 = d0 + k + 1"
    using dl "0.prems"(2) ik by simp
  ultimately show ?case
    by blast
next
  case (Suc d)
  then have lt: "i < k" and d: "d = k - (i + 1)" and le: "i + 1 \<le> k"
    by simp_all
  let ?client = "\<lparr>conn = d0 + i\<rparr>"
  let ?w1 = "w\<lparr>dials := dials w + 1, open_conns := dials w # open_conns w\<rparr>"
  have "dial (dials w) = None"
    using assms(3) lt Suc.prems(2) by simp
  then have new: "NewClient dial addr w = (Inr ?client, ?w1)"
    using Suc.prems(2) by (simp add: NewClient_def)
  have inb: "i < length cs" and inn: "i < n"
    using lt assms(1) Suc.prems(3) by simp_all
  have p2: "dials ?w1 = d0 + (i + 1)"
    using Suc.prems(2) by simp
  have p3: "length (cs[i := Some ?client]) = n"
    using Suc.prems(3) by simp
  have p4: "\<forall>t<i + 1. (cs[i := Some ?client]) ! t = Some \<lparr>conn = d0 + t\<rparr>"
    using Suc.prems(4) inb by (auto simp: nth_list_update less_Suc_eq)
  from Suc.hyps(1) [OF d le p2 p3 p4] obtain w' where
    run: "create_clients dial addr n (i + 1) (cs[i := Some ?client]) ?w1
            = (Inl (CreateClientFailed k (''failed to connect to '' @ addr @ '': '' @ e)), w')"
    and opn: "open_conns w' = filter (\<lambda>c. c \<notin> {d0..<d0 + k}) (open_conns ?w1)"
    and dl: "dials w' = d0 + k + 1"
    by blast
  have "create_clients dial addr n i cs w
          = (Inl (CreateClientFailed k (''failed to connect to '' @ addr @ '': '' @ e)), w')"
    using inn inb new run by (subst create_clients.simps) simp
  moreover have "open_conns w' = filter (\<lambda>c. c \<notin> {d0..<d0 + k}) (open_conns w)"
    using opn lt Suc.prems(2) by simp
  ultimately show ?case
    using dl by blast
qed

text \<open>
  Claim C7. For every count \<open>N\<close> and every index \<open>k < N\<close>: when the first \<open>k\<close> connections
  open and connection \<open>k\<close> fails to open, \<open>NewConnectionPool\<close> returns no pool but the
  error that carries the index \<open>k\<close> and the cause, and afterwards none of the \<open>k\<close>
  connections it had opened is open: the open connections are those that were open
  before the call.
\<close>

theorem NewConnectionPool_all_or_nothing:
  assumes "int k < N"
    and "\<forall>j<k. dial (dials w + j) = None"
    and "dial (dials w + k) = Some e"
  shows "\<exists>w'. NewConnectionPool dial addr N w
             = (Inl (CreateClientFailed k (''failed to connect to '' @ addr @ '': '' @ e)), w')
           \<and> (\<forall>j<k. dials w + j \<notin> set (open_conns w'))
           \<and> open_conns w' = filter (\<lambda>c. c \<notin> {dials w..<dials w + k}) (open_conns w)"
proof -
  have kn: "k < nat N" and n0: "\<not> N < 0"
    using assms(1) by simp_all
  from create_clients_fails [of k "nat N" dial "dials w" e 0 w "replicate (nat N) None" addr]
    kn assms(2,3)
  obtain w' where
    run: "create_clients dial addr (nat N) 0 (replicate (nat N) None) w
            = (Inl (CreateClientFailed k (''failed to connect to '' @ addr @ '': '' @ e)), w')"
    and opn: "open_conns w' = filter (\<lambda>c. c \<notin> {dials w..<dials w + k}) (open_conns w)"
    by auto
  have "NewConnectionPool dial addr N w
          = (Inl (CreateClientFailed k (''failed to connect to '' @ addr @ '': '' @ e)), w')"
    using n0 run by (simp add: NewConnectionPool_def)
  moreover have "\<forall>j<k. dials w + j \<notin> set (open_conns w')"
    unfolding opn by simp
  ultimately show ?thesis
    using opn by blast
qed

theorem NewConnectionPool_all_or_nothing_witness:
  "int 2 < 3
   \<and> (\<lambda>n. if n = (2::nat) then Some ''refused'' else None) (dials \<lparr>dials = 0, open_conns = []\<rparr> + 0)
       = None
   \<and> (\<lambda>n. if n = (2::nat) then Some ''refused'' else None) (dials \<lparr>dials = 0, open_conns = []\<rparr> + 1)
       = None
   \<and> (\<lambda>n. if n = (2::nat) then Some ''refused'' else None) (dials \<lparr>dials = 0, open_conns = []\<rparr> + 2)
       = Some ''refused''
   \<and> (\<exists>w'. NewConnectionPool (\<lambda>n. if n = 2 then Some ''refused'' else None) ''kv:50051'' 3
              \<lparr>dials = 0, open_conns = []\<rparr>
            = (Inl (CreateClientFailed 2 ''failed to connect to kv:50051: refused''), w')
          \<and> open_conns w' = [])"
proof -
  let ?dial = "\<lambda>n::nat. if n = 2 then Some ''refused'' else None"
  let ?w = "\<lparr>dials = 0, open_conns = []\<rparr>"
  have h1: "int 2 < 3"
    and h2: "\<forall>j<2. ?dial (dials ?w + j) = None"
    and h3: "?dial (dials ?w + 2) = Some ''refused''"
    by simp_all
  from NewConnectionPool_all_or_nothing [OF h1 h2 h3, of "''kv:50051''"] obtain w' where
    "NewConnectionPool ?dial ''kv:50051'' 3 ?w
       = (Inl (CreateClientFailed 2 (''failed to connect to '' @ ''kv:50051'' @ '': '' @ ''refused'')), w')"
    "open_conns w' = filter (\<lambda>c. c \<notin> {dials ?w..<dials ?w + 2}) (open_conns ?w)"
    by blast
  then have "NewConnectionPool ?dial ''kv:50051'' 3 ?w
       = (Inl (CreateClientFailed 2 ''failed to connect to kv:50051: refused''), w')
     \<and> open_conns w' = []"
    by simp
  then show ?thesis
    using h1 h3 by simp
qed

section \<open>Latency, progress and export at concrete inputs\<close>

text \<open>
  Claim C2, evaluated. An operation that took 1.5 milliseconds is submitted with the
  latency 1: \<open>Duration.Milliseconds\<close> returns whole milliseconds, and the conversion to
  \<open>float64\<close> comes after it.
\<close>

theorem performOperation_whole_milliseconds:
  "performOperation
      \<lparr>metrics = [], results = [], done_closed = False, csvWriter = None, csvFile_closed = False\<rparr>
      False \<lparr>op = ''Get'', elapsed = 1500000, err = None, finished_at = 7\<rparr>
     = \<lparr>metrics = [],
        results = [\<lparr>BenchmarkResult.Method = ''Get'', LatencyMs = 1, Error = None, Timestamp = 7\<rparr>],
        done_closed = False, csvWriter = None, csvFile_closed = False\<rparr>
   \<and> (1::real) \<noteq> real_of_int 1500000 / 1000000"
  by (simp add: performOperation_def Milliseconds_def Collector_AddResult_def
      results_capacity_def)

text \<open>
  Claim C3, evaluated. A runner is constructed at clock 0 with a warm-up of 5 seconds, so
  the measuring phase begins at 5 seconds. At 10 seconds, with 15000 operations counted,
  the progress line reports 1500 operations per second, the count divided by the 10
  seconds since construction; over the 5 seconds of measuring the rate is 3000.
\<close>

theorem printProgress_since_construction:
  "NewBenchmarkRunner (\<lambda>n. None) None None 0
      \<lparr>TargetAddress = ''kv:50051'', NumConnections = 1, OutputCSV = [], KeySpace = 100,
       WarmupDuration = 5000000000, Duration = 30000000000\<rparr>
      \<lparr>dials = 0, open_conns = []\<rparr>
     = (Inr \<lparr>config = \<lparr>TargetAddress = ''kv:50051'', NumConnections = 1, OutputCSV = [],
                        KeySpace = 100, WarmupDuration = 5000000000, Duration = 30000000000\<rparr>,
             pool = \<lparr>clients = [Some \<lparr>conn = 0\<rparr>], index = 0\<rparr>,
             collector = \<lparr>metrics = [], results = [], done_closed = False, csvWriter = None,
                          csvFile_closed = False\<rparr>,
             startTime = 0\<rparr>,
        \<lparr>dials = 1, open_conns = [0]\<rparr>)
   \<and> measuring_began
        \<lparr>config = \<lparr>TargetAddress = ''kv:50051'', NumConnections = 1, OutputCSV = [],
                   KeySpace = 100, WarmupDuration = 5000000000, Duration = 30000000000\<rparr>,
         pool = \<lparr>clients = [Some \<lparr>conn = 0\<rparr>], index = 0\<rparr>,
         collector = \<lparr>metrics = [], results = [], done_closed = False, csvWriter = None,
                      csvFile_closed = False\<rparr>,
         startTime = 0\<rparr> 0 0 = 5000000000
   \<and> map_sum id (map_option (\<lambda>line. (Total line, RPS line)))
        (printProgress
           \<lparr>config = \<lparr>TargetAddress = ''kv:50051'', NumConnections = 1, OutputCSV = [],
                      KeySpace = 100, WarmupDuration = 5000000000, Duration = 30000000000\<rparr>,
            pool = \<lparr>clients = [Some \<lparr>conn = 0\<rparr>], index = 0\<rparr>,
            collector =
              \<lparr>metrics = [(''Get'', (NewMetrics ''Get'')\<lparr>Metrics.Count := 15000,
                              Metrics.TotalLatency := 30000, Metrics.MinLatency := 2,
                              Metrics.MaxLatency := 2, Latencies := [2]\<rparr>)],
               results = [], done_closed = False, csvWriter = None, csvFile_closed = False\<rparr>,
            startTime = 0\<rparr>
           10000000000)
       = Inr (Some (15000, Finite 1500))
   \<and> f64_div (float64_of_int64 15000) (Seconds (10000000000 - 5000000000)) = Finite 3000"
  by (simp add: NewBenchmarkRunner_def NewConnectionPool_def create_clients.simps
      NewClient_def NewCollector_def measuring_began_def printProgress_def
      GetAggregatedStats_def NewMetrics_def percentile_def int_of_float64_def index_slice_def
      f64_div_def float64_of_int64_def Seconds_def Let_def)

lemma two_successes_ingested:
  "NewCollector ''out.csv'' None
     = Inr \<lparr>metrics = [], results = [], done_closed = False,
            csvWriter = Some [Header [''timestamp'', ''method'', ''total_ops'',
                    ''success_ops'', ''error_ops'', ''error_rate_pct'', ''avg_latency_ms'',
                    ''p50_latency_ms'', ''p95_latency_ms'', ''p99_latency_ms'',
                    ''min_latency_ms'', ''max_latency_ms'', ''throughput_ops_per_sec'']],
            csvFile_closed = False\<rparr>
   \<and> AddResults (NewMetrics ''Get'')
        [\<lparr>BenchmarkResult.Method = ''Get'', LatencyMs = 1, Error = None, Timestamp = 0\<rparr>,
         \<lparr>BenchmarkResult.Method = ''Get'', LatencyMs = 3, Error = None, Timestamp = 1\<rparr>]
       = Inr ((NewMetrics ''Get'')\<lparr>Metrics.Count := 2, Metrics.TotalLatency := 4,
                Metrics.MinLatency := 1, Metrics.MaxLatency := 3, Latencies := [1, 3]\<rparr>)"
  by (simp add: NewCollector_def AddResult_def NewMetrics_def Let_def)

text \<open>
  Claim C4, evaluated. A collector with a CSV writer has ingested two successful \<open>Get\<close>
  results and is stopped 2 seconds after the start time of its metrics. \<open>Stop\<close> writes
  the \<open>Get\<close> row with the throughput 1, two operations in two seconds, and the
  \<open>AGGREGATED\<close> row with the throughput 2, the number of successful operations itself.
\<close>

theorem aggregated_row_throughput:
  "map_sum id (\<lambda>c'. case csvWriter c' of None \<Rightarrow> [] | Some recs \<Rightarrow> throughput_column recs)
      (Stop (\<lambda>m. 0) 2000000000
         \<lparr>metrics = [(''Get'', (NewMetrics ''Get'')\<lparr>Metrics.Count := 2,
                          Metrics.TotalLatency := 4, Metrics.MinLatency := 1,
                          Metrics.MaxLatency := 3, Latencies := [1, 3]\<rparr>)],
          results = [], done_closed = False,
          csvWriter = Some [Header [''timestamp'', ''method'', ''total_ops'',
                    ''success_ops'', ''error_ops'', ''error_rate_pct'', ''avg_latency_ms'',
                    ''p50_latency_ms'', ''p95_latency_ms'', ''p99_latency_ms'',
                    ''min_latency_ms'', ''max_latency_ms'', ''throughput_ops_per_sec'']],
          csvFile_closed = False\<rparr>)
     = Inr [(''Get'', 2, 1), (''AGGREGATED'', 2, 2)]
   \<and> float64_of_int64 2 / Seconds (2000000000 - 0) = 1"
  by (simp add: Stop_def WriteAggregatedMetricsToCSV_def GetStats_def copy_slice_def
      GetAggregatedStats_def NewMetrics_def percentile_def int_of_float64_def index_slice_def
      f64_div_def float64_of_int64_def Seconds_def Let_def)

end
